theory Spec2Isabelle
  imports Main "HOL-Library.Finite_Map" "HOL-Library.Stream"
    "HOL-Library.List_Lexorder" "HOL-Library.Char_ord"
begin

section \<open>The URL shortener's store (main.go of url-shortener)\<close>

text \<open>
  The program keeps one global map \<open>urls\<close> from codes to target URLs, mirrors it in the
  file \<open>urls.json\<close>, and draws codes from the global pseudo-random source of
  \<open>math/rand\<close>. The model passes these three pieces of state explicitly. What the
  program takes from outside its own source (the operating system's file calls, the
  \<open>encoding/json\<close> library, the random source) is kept apart from the functions of
  \<open>main.go\<close>, which are translated statement by statement.
\<close>

subsection \<open>Constants\<close>

definition dbFile :: string where
  "dbFile = ''urls.json''"

definition baseURL :: string where
  "baseURL = ''http://localhost:8080/''"

definition codeLength :: nat where
  "codeLength = 6"

subsection \<open>Errors\<close>

text \<open>
  Go's \<open>error\<close> values, as far as the program tells them apart: it only asks whether an
  error of \<open>os.Open\<close> is a not-exist error.
\<close>

datatype error =
    ErrNotExist
  | ErrPermission
  | ErrNoSpace
  | ErrIO
  | ErrJSON string

definition os_IsNotExist :: "error \<Rightarrow> bool" where
  "os_IsNotExist err = (err = ErrNotExist)"

subsection \<open>The file system\<close>

text \<open>
  A file system is a map from paths to file contents. Each call that can fail for reasons
  outside the program takes the failure it meets, if any, as its first argument: the
  environment decides, the program only reacts.
\<close>

type_synonym fs = "string \<rightharpoonup> string"

text \<open>\<open>os.Open\<close>: a path that is not there gives the not-exist error; a file that is there
  opens unless the environment refuses.\<close>

definition os_Open :: "error option \<Rightarrow> string \<Rightarrow> fs \<Rightarrow> error + string" where
  "os_Open fault name files =
     (case files name of
        None \<Rightarrow> Inl ErrNotExist
      | Some content \<Rightarrow> (case fault of Some err \<Rightarrow> Inl err | None \<Rightarrow> Inr content))"

text \<open>\<open>os.Create\<close>: creates the file or truncates it to length zero.\<close>

definition os_Create :: "error option \<Rightarrow> string \<Rightarrow> fs \<Rightarrow> error + fs" where
  "os_Create fault name files =
     (case fault of Some err \<Rightarrow> Inl err | None \<Rightarrow> Inr (files(name \<mapsto> [])))"

text \<open>Writing to an open file appends. A failing write reports its error after some
  prefix of the data (possibly none of it, possibly all) has reached the file.\<close>

definition file_Write :: "(nat \<times> error) option \<Rightarrow> string \<Rightarrow> string \<Rightarrow> fs \<Rightarrow> error option \<times> fs" where
  "file_Write fault name data files =
     (let old = (case files name of None \<Rightarrow> [] | Some content \<Rightarrow> content)
      in case fault of
           Some (n, err) \<Rightarrow> (Some err, files(name \<mapsto> old @ take n data))
         | None \<Rightarrow> (None, files(name \<mapsto> old @ data)))"

text \<open>\<open>os.Rename\<close>: replaces the destination by the source in one step, or fails and
  changes nothing.\<close>

definition os_Rename :: "error option \<Rightarrow> string \<Rightarrow> string \<Rightarrow> fs \<Rightarrow> error option \<times> fs" where
  "os_Rename fault oldpath newpath files =
     (case fault of
        Some err \<Rightarrow> (Some err, files)
      | None \<Rightarrow>
          (case files oldpath of
             None \<Rightarrow> (Some ErrNotExist, files)
           | Some content \<Rightarrow> (None, (files(oldpath := None))(newpath \<mapsto> content))))"

subsection \<open>The JSON library\<close>

text \<open>
  \<open>encoding/json\<close> is not part of the program. The model takes it as a parameter:
  \<^item> \<open>marshal prefix indent m\<close> is the text an \<open>Encoder\<close> with \<open>SetIndent(prefix, indent)\<close>
    writes for the map \<open>m\<close> (an encoder left without indentation is \<open>marshal [] []\<close>);
  \<^item> \<open>unmarshal text m\<close> is what \<open>Decode(&m)\<close> does on a stream holding \<open>text\<close>: the error it
    returns and the map it leaves behind;
  \<^item> \<open>unmarshal_url text\<close> is \<open>Decode\<close> into the request struct with the one field \<open>url\<close>.
\<close>

record json =
  marshal :: "string \<Rightarrow> string \<Rightarrow> (string, string) fmap \<Rightarrow> string"
  unmarshal :: "string \<Rightarrow> (string, string) fmap \<Rightarrow> error option \<times> (string, string) fmap"
  unmarshal_url :: "string \<Rightarrow> error + string"

text \<open>\<open>encoder.Encode(v)\<close> on a file: the text is produced in memory, then written with
  one call. A map of strings always marshals, so only the write can fail.\<close>

definition Encoder_Encode ::
  "json \<Rightarrow> (nat \<times> error) option \<Rightarrow> string \<Rightarrow> string \<Rightarrow> string \<Rightarrow> (string, string) fmap \<Rightarrow> fs
     \<Rightarrow> error option \<times> fs" where
  "Encoder_Encode js fault prefix indent name v files =
     file_Write fault name (marshal js prefix indent v) files"

subsection \<open>load and save\<close>

text \<open>
  \<^verbatim>\<open>
  func load() error {
      file, err := os.Open(dbFile)
      if os.IsNotExist(err) { return nil } else if err != nil { return err }
      defer file.Close()
      return json.NewDecoder(file).Decode(&urls)
  }
  \<close>
\<close>

definition load ::
  "json \<Rightarrow> error option \<Rightarrow> (string, string) fmap \<Rightarrow> fs \<Rightarrow> error option \<times> (string, string) fmap" where
  "load js open_fault urls files =
     (case os_Open open_fault dbFile files of
        Inl err \<Rightarrow> if os_IsNotExist err then (None, urls) else (Some err, urls)
      | Inr content \<Rightarrow> unmarshal js content urls)"

text \<open>The failures the environment can put in the way of one run of \<open>save\<close>.\<close>

record save_faults =
  create_fault :: "error option"
  write_fault :: "(nat \<times> error) option"
  rename_fault :: "error option"

definition no_faults :: save_faults where
  "no_faults = \<lparr>create_fault = None, write_fault = None, rename_fault = None\<rparr>"

text \<open>
  \<^verbatim>\<open>
  func save() error {
      temp := dbFile + ".tmp"
      file, err := os.Create(temp)
      if err != nil { return err }
      encoder := json.NewEncoder(file)
      encoder.SetIndent("", "  ")
      if err := encoder.Encode(urls); err != nil { file.Close(); return err }
      file.Close()
      return os.Rename(temp, dbFile)
  }
  \<close>
  \<open>file.Close()\<close> changes no file content and its result is dropped, so it has no
  counterpart below.
\<close>

definition save :: "json \<Rightarrow> save_faults \<Rightarrow> (string, string) fmap \<Rightarrow> fs \<Rightarrow> error option \<times> fs" where
  "save js flt urls files =
     (let temp = dbFile @ ''.tmp'' in
      case os_Create (create_fault flt) temp files of
        Inl err \<Rightarrow> (Some err, files)
      | Inr files1 \<Rightarrow>
          (case Encoder_Encode js (write_fault flt) [] ''  '' temp urls files1 of
             (Some err, files2) \<Rightarrow> (Some err, files2)
           | (None, files2) \<Rightarrow> os_Rename (rename_fault flt) temp dbFile files2))"

text \<open>
  The file-system states one run of \<open>save\<close> passes through, in order: the state it
  starts in, the states of the temporary file while the text is written to it byte by
  byte, and the state after the rename. A crash leaves the disk in one of them.
\<close>

definition save_trace :: "json \<Rightarrow> save_faults \<Rightarrow> (string, string) fmap \<Rightarrow> fs \<Rightarrow> fs list" where
  "save_trace js flt urls files =
     (let temp = dbFile @ ''.tmp''; data = marshal js [] ''  '' urls in
      case create_fault flt of
        Some err \<Rightarrow> [files]
      | None \<Rightarrow>
          (case write_fault flt of
             Some (n, err) \<Rightarrow>
               files # map (\<lambda>k. files(temp \<mapsto> take k data)) [0..<Suc (min n (length data))]
           | None \<Rightarrow>
               files # map (\<lambda>k. files(temp \<mapsto> take k data)) [0..<Suc (length data)]
                 @ [snd (os_Rename (rename_fault flt) temp dbFile (files(temp \<mapsto> data)))]))"

subsection \<open>generateCode\<close>

text \<open>
  The random source is a stream of raw draws. \<open>rand.Intn(n)\<close> consumes one and returns a
  value below \<open>n\<close>; taking the raw draw modulo \<open>n\<close> makes every sequence of results below
  \<open>n\<close> possible, which is all the program relies on.
\<close>

definition rand_Intn :: "nat \<Rightarrow> nat stream \<Rightarrow> nat \<times> nat stream" where
  "rand_Intn n g = (shd g mod n, stl g)"

definition letters :: string where
  "letters = ''abcdefghijklmnopqrstuvwxyzABCDEFGHIJKLMNOPQRSTUVWXYZ0123456789''"

text \<open>The loop \<open>for i := range b { b[i] = letters[rand.Intn(len(letters))] }\<close>, filling
  \<open>n\<close> positions from left to right.\<close>

fun generate :: "nat \<Rightarrow> nat stream \<Rightarrow> string \<times> nat stream" where
  "generate 0 g = ([], g)"
| "generate (Suc n) g =
     (case rand_Intn (length letters) g of
        (k, g1) \<Rightarrow> (case generate n g1 of (b, g2) \<Rightarrow> (letters ! k # b, g2)))"

definition generateCode :: "nat stream \<Rightarrow> string \<times> nat stream" where
  "generateCode g = generate codeLength g"

subsection \<open>shorten\<close>

record store =
  urls :: "(string, string) fmap"
  disk :: fs
  rng :: "nat stream"

text \<open>
  \<^verbatim>\<open>
  func shorten(u string) (string, error) {
      mu.Lock()
      defer mu.Unlock()
      for {
          code := generateCode()
          if _, exists := urls[code]; !exists {
              urls[code] = u
              if err := save(); err != nil { return "", err }
              return baseURL + code, nil
          }
      }
  }
  \<close>
  The loop has no bound, so the model is a partial function: \<open>None\<close> is a run that
  never returns. A returning run gives the error or the short URL, and the state it
  leaves. The model is sequential, so taking and releasing the lock \<open>mu\<close> has no
  counterpart.
\<close>

partial_function (option) shorten ::
  "json \<Rightarrow> save_faults \<Rightarrow> string \<Rightarrow> store \<Rightarrow> ((error + string) \<times> store) option" where
  "shorten js flt u st =
     (case generateCode (rng st) of
        (code, g) \<Rightarrow>
          if code |\<notin>| fmdom (urls st) then
            (let urls1 = fmupd code u (urls st) in
             case save js flt urls1 (disk st) of
               (Some err, files) \<Rightarrow> Some (Inl err, \<lparr>urls = urls1, disk = files, rng = g\<rparr>)
             | (None, files) \<Rightarrow> Some (Inr (baseURL @ code), \<lparr>urls = urls1, disk = files, rng = g\<rparr>))
          else shorten js flt u (st\<lparr>rng := g\<rparr>))"

subsection \<open>init\<close>

text \<open>
  \<^verbatim>\<open>
  func init() {
      rand.Seed(time.Now().UnixNano())
      urls = make(map[string]string)
      if err := load(); err != nil { log.Println("Failed to load DB:", err) }
  }
  \<close>
  The seed fixes the stream of draws; the model takes that stream. A load error is
  logged and the program goes on with whatever \<open>load\<close> left in \<open>urls\<close>.
\<close>

definition init :: "json \<Rightarrow> error option \<Rightarrow> nat stream \<Rightarrow> fs \<Rightarrow> store" where
  "init js open_fault seeded files =
     (case load js open_fault fmempty files of
        (err, urls1) \<Rightarrow> \<lparr>urls = urls1, disk = files, rng = seeded\<rparr>)"

subsection \<open>The HTTP handlers\<close>

text \<open>What a handler sends back: a call of \<open>http.Redirect\<close>, of \<open>http.Error\<close>, or a JSON
  body written with status 200.\<close>

datatype response =
    Redirect string nat
  | Error string nat
  | JSON string

definition StatusFound :: nat where
  "StatusFound = 302"

definition StatusBadRequest :: nat where
  "StatusBadRequest = 400"

definition StatusNotFound :: nat where
  "StatusNotFound = 404"

definition StatusMethodNotAllowed :: nat where
  "StatusMethodNotAllowed = 405"

definition StatusInternalServerError :: nat where
  "StatusInternalServerError = 500"

text \<open>\<open>http.NotFound(w, r)\<close> is \<open>http.Error(w, "404 page not found", StatusNotFound)\<close>.\<close>

definition http_NotFound :: response where
  "http_NotFound = Error ''404 page not found'' StatusNotFound"

datatype panic = SliceBoundsOutOfRange

text \<open>
  \<^verbatim>\<open>
  func redirectHandler(w http.ResponseWriter, r *http.Request) {
      code := r.URL.Path[1:]
      mu.RLock()
      defer mu.RUnlock()
      if dest, ok := urls[code]; ok {
          http.Redirect(w, r, dest, http.StatusFound)
      } else {
          http.NotFound(w, r)
      }
  }
  \<close>
  The slice expression \<open>Path[1:]\<close> drops the first byte and panics on the empty string.
\<close>

definition redirectHandler :: "store \<Rightarrow> string \<Rightarrow> panic + response" where
  "redirectHandler st path =
     (if length path < 1 then Inl SliceBoundsOutOfRange
      else
        (let code = drop 1 path in
         case fmlookup (urls st) code of
           Some dest \<Rightarrow> Inr (Redirect dest StatusFound)
         | None \<Rightarrow> Inr http_NotFound))"

record request =
  req_method :: string
  req_body :: string

text \<open>
  \<^verbatim>\<open>
  func shortenHandler(w http.ResponseWriter, r *http.Request) {
      if r.Method != http.MethodPost {
          http.Error(w, "Method not allowed", http.StatusMethodNotAllowed)
          return
      }
      var req struct { URL string `json:"url"` }
      if err := json.NewDecoder(r.Body).Decode(&req); err != nil {
          http.Error(w, "Bad request", http.StatusBadRequest)
          return
      }
      short, err := shorten(req.URL)
      if err != nil {
          http.Error(w, "Internal server error", http.StatusInternalServerError)
          return
      }
      resp := map[string]string{"short_url": short}
      w.Header().Set("Content-Type", "application/json")
      json.NewEncoder(w).Encode(resp)
  }
  \<close>
\<close>

definition shortenHandler ::
  "json \<Rightarrow> save_faults \<Rightarrow> request \<Rightarrow> store \<Rightarrow> (response \<times> store) option" where
  "shortenHandler js flt r st =
     (if req_method r \<noteq> ''POST'' then
        Some (Error ''Method not allowed'' StatusMethodNotAllowed, st)
      else
        (case unmarshal_url js (req_body r) of
           Inl err \<Rightarrow> Some (Error ''Bad request'' StatusBadRequest, st)
         | Inr url \<Rightarrow>
             (case shorten js flt url st of
                None \<Rightarrow> None
              | Some (Inl err, st1) \<Rightarrow>
                  Some (Error ''Internal server error'' StatusInternalServerError, st1)
              | Some (Inr short, st1) \<Rightarrow>
                  Some (JSON (marshal js [] [] (fmupd ''short_url'' short fmempty)), st1))))"

subsection \<open>The command line\<close>

text \<open>
  \<^verbatim>\<open>
  func runCLI(args []string) {
      fs := flag.NewFlagSet("urls", flag.ExitOnError)
      longURL := fs.String("url", "", "URL to shorten")
      serve := fs.Bool("serve", false, "Run HTTP server")
      fs.Parse(args)
      if *serve { runServer(); return }
      if *longURL != "" {
          short, err := shorten(*longURL)
          if err != nil { log.Fatal(err) }
          fmt.Println("Shortened URL:", short)
          return
      }
      fs.Usage()
  }
  \<close>
  The model starts after \<open>fs.Parse\<close>, from the values of the two flags.
\<close>

datatype cli_result =
    Served
  | Fatal error
  | Printed string
  | Usage

definition runCLI ::
  "json \<Rightarrow> save_faults \<Rightarrow> bool \<Rightarrow> string \<Rightarrow> store \<Rightarrow> (cli_result \<times> store) option" where
  "runCLI js flt serve longURL st =
     (if serve then Some (Served, st)
      else if longURL \<noteq> [] then
        (case shorten js flt longURL st of
           None \<Rightarrow> None
         | Some (Inl err, st1) \<Rightarrow> Some (Fatal err, st1)
         | Some (Inr short, st1) \<Rightarrow> Some (Printed (''Shortened URL: '' @ short), st1))
      else Some (Usage, st))"

subsection \<open>The JSON library as the program uses it\<close>

text \<open>
  The theorems about \<open>save\<close>, \<open>load\<close> and \<open>shorten\<close> hold for every \<open>json\<close>. What the
  program gets from \<open>encoding/json\<close> itself is modelled by \<open>go_json\<close>, on the two types the
  program passes to it, a map of strings and the request struct:
  \<^item> an \<open>Encoder\<close> (which escapes HTML unless told otherwise) writes the keys in byte order,
    one member per line when indented and the members packed when not; in a string it
    escapes the quote, the backslash, the control characters and \<open><\<close>, \<open>>\<close>, \<open>&\<close>, writes a
    byte that is not part of well-formed UTF-8 as the escape of U+FFFD, and writes
    U+2028 and U+2029 as escapes;
  \<^item> a \<open>Decoder\<close> reads the escapes of JSON, surrogate pairs included, and turns a byte
    that is not part of well-formed UTF-8 into U+FFFD; members are added to the map
    that is passed in, a later member with the same key replacing an earlier one.
  The reading side is restricted to objects all of whose members are strings, with
  nothing after the object: other input is answered with an error.
\<close>

text \<open>\<open>utf8.DecodeRune\<close>, as far as the library uses it: the number of bytes of the
  well-formed UTF-8 sequence a string starts with, and 0 where \<open>DecodeRune\<close> answers
  \<open>RuneError\<close> with width 1. The second byte is restricted after \<open>E0\<close>, \<open>ED\<close>, \<open>F0\<close> and
  \<open>F4\<close>, which excludes overlong forms, surrogates and values above U+10FFFF.\<close>

definition continuation :: "char \<Rightarrow> bool" where
  "continuation c = (128 \<le> (of_char c :: nat) \<and> (of_char c :: nat) \<le> 191)"

definition second_byte :: "nat \<Rightarrow> char \<Rightarrow> bool" where
  "second_byte b0 c =
     ((if b0 = 224 then 160 else if b0 = 240 then 144 else 128) \<le> (of_char c :: nat) \<and>
      (of_char c :: nat) \<le> (if b0 = 237 then 159 else if b0 = 244 then 143 else 191))"

definition rune_len :: "string \<Rightarrow> nat" where
  "rune_len s =
     (case s of
        [] \<Rightarrow> 0
      | c # s1 \<Rightarrow>
          (let b0 = (of_char c :: nat) in
           if b0 < 128 then 1
           else if 194 \<le> b0 \<and> b0 \<le> 223 then
             (case s1 of
                c1 # s2 \<Rightarrow> if continuation c1 then 2 else 0
              | [] \<Rightarrow> 0)
           else if 224 \<le> b0 \<and> b0 \<le> 239 then
             (case s1 of
                c1 # c2 # s3 \<Rightarrow> if second_byte b0 c1 \<and> continuation c2 then 3 else 0
              | _ \<Rightarrow> 0)
           else if 240 \<le> b0 \<and> b0 \<le> 244 then
             (case s1 of
                c1 # c2 # c3 # s4 \<Rightarrow>
                  if second_byte b0 c1 \<and> continuation c2 \<and> continuation c3 then 4 else 0
              | _ \<Rightarrow> 0)
           else 0))"

text \<open>\<open>utf8.ValidString\<close>.\<close>

fun valid_utf8 :: "string \<Rightarrow> bool" where
  "valid_utf8 [] = True"
| "valid_utf8 (c # cs) = (0 < rune_len (c # cs) \<and> valid_utf8 (drop (rune_len (c # cs) - 1) cs))"

text \<open>\<open>utf8.EncodeRune\<close>: a surrogate or a value above U+10FFFF is encoded as U+FFFD.\<close>

definition replacement :: string where
  "replacement = [CHR 0xEF, CHR 0xBF, CHR 0xBD]"

definition encode_rune :: "nat \<Rightarrow> string" where
  "encode_rune r =
     (if r < 128 then [char_of r]
      else if r < 2048 then [char_of (192 + r div 64), char_of (128 + r mod 64)]
      else if (55296 \<le> r \<and> r \<le> 57343) \<or> 1114111 < r then replacement
      else if r < 65536 then
        [char_of (224 + r div 4096), char_of (128 + r div 64 mod 64), char_of (128 + r mod 64)]
      else
        [char_of (240 + r div 262144), char_of (128 + r div 4096 mod 64),
         char_of (128 + r div 64 mod 64), char_of (128 + r mod 64)])"

text \<open>Writing a string. A byte below 128 is copied or escaped by \<open>escape\<close>.\<close>

definition hex_digit :: "nat \<Rightarrow> char" where
  "hex_digit n = ''0123456789abcdef'' ! n"

definition escape :: "char \<Rightarrow> string" where
  "escape c =
     (if c = CHR 0x22 \<or> c = CHR 0x5C then [CHR 0x5C, c]
      else if c = CHR 0x08 then [CHR 0x5C, CHR ''b'']
      else if c = CHR 0x0C then [CHR 0x5C, CHR ''f'']
      else if c = CHR 0x0A then [CHR 0x5C, CHR ''n'']
      else if c = CHR 0x0D then [CHR 0x5C, CHR ''r'']
      else if c = CHR 0x09 then [CHR 0x5C, CHR ''t'']
      else if of_char c < (32::nat) \<or> c = CHR ''<'' \<or> c = CHR ''>'' \<or> c = CHR ''&'' then
        [CHR 0x5C, CHR ''u'', CHR ''0'', CHR ''0'',
         hex_digit (of_char c div 16), hex_digit (of_char c mod 16)]
      else [c])"

text \<open>From a byte of 128 or more the encoder decodes one rune: where there is none it
  writes the escape of U+FFFD and goes on after that one byte; U+2028 and U+2029 (the bytes \<open>E2 80 A8\<close>
  and \<open>E2 80 A9\<close>) are written as escapes; every other rune is copied.\<close>

fun encode_string :: "string \<Rightarrow> string" where
  "encode_string [] = []"
| "encode_string (c # cs) =
     (if of_char c < (128::nat) then escape c @ encode_string cs
      else if rune_len (c # cs) = 0 then CHR 0x5C # ''ufffd'' @ encode_string cs
      else if take 3 (c # cs) = [CHR 0xE2, CHR 0x80, CHR 0xA8] then
        CHR 0x5C # ''u2028'' @ encode_string (drop 2 cs)
      else if take 3 (c # cs) = [CHR 0xE2, CHR 0x80, CHR 0xA9] then
        CHR 0x5C # ''u2029'' @ encode_string (drop 2 cs)
      else take (rune_len (c # cs)) (c # cs) @ encode_string (drop (rune_len (c # cs) - 1) cs))"

definition quote :: "string \<Rightarrow> string" where
  "quote s = CHR 0x22 # encode_string s @ [CHR 0x22]"

fun join :: "string \<Rightarrow> string list \<Rightarrow> string" where
  "join sep [] = []"
| "join sep [x] = x"
| "join sep (x # y # ys) = x @ sep @ join sep (y # ys)"

text \<open>The object: packed when both prefix and indent are empty, otherwise one member per
  line, each line starting with the prefix and one indent; a newline ends the text.\<close>

definition go_marshal :: "string \<Rightarrow> string \<Rightarrow> (string, string) fmap \<Rightarrow> string" where
  "go_marshal prefix indent m =
     (let kvs = sorted_list_of_fmap m in
      if prefix = [] \<and> indent = [] then
        ''{'' @ join '','' (map (\<lambda>(k, v). quote k @ '':'' @ quote v) kvs) @ ''}'' @ [CHR 0x0A]
      else if kvs = [] then ''{}'' @ [CHR 0x0A]
      else
        ''{'' @ [CHR 0x0A]
          @ join ('','' @ [CHR 0x0A])
              (map (\<lambda>(k, v). prefix @ indent @ quote k @ '': '' @ quote v) kvs)
          @ [CHR 0x0A] @ prefix @ ''}'' @ [CHR 0x0A])"

text \<open>Reading. \<open>getu4\<close> reads \<open>\uXXXX\<close> at the head of a string.\<close>

datatype token = LBrace | RBrace | Colon | Comma | Str string

datatype mode = Outside | InString

definition hex_value :: "char \<Rightarrow> nat option" where
  "hex_value c =
     (let n = (of_char c :: nat) in
      if 48 \<le> n \<and> n \<le> 57 then Some (n - 48)
      else if 97 \<le> n \<and> n \<le> 102 then Some (n - 87)
      else if 65 \<le> n \<and> n \<le> 70 then Some (n - 55)
      else None)"

definition getu4 :: "string \<Rightarrow> nat option" where
  "getu4 s =
     (case s of
        b # u # h1 # h2 # h3 # h4 # rest \<Rightarrow>
          if b = CHR 0x5C \<and> u = CHR ''u'' then
            (case (hex_value h1, hex_value h2, hex_value h3, hex_value h4) of
               (Some d1, Some d2, Some d3, Some d4) \<Rightarrow> Some (((d1 * 16 + d2) * 16 + d3) * 16 + d4)
             | _ \<Rightarrow> None)
          else None
      | _ \<Rightarrow> None)"

definition unescape :: "char \<Rightarrow> char option" where
  "unescape c =
     (if c = CHR 0x22 \<or> c = CHR 0x5C \<or> c = CHR ''/'' then Some c
      else if c = CHR ''n'' then Some (CHR 0x0A)
      else if c = CHR ''r'' then Some (CHR 0x0D)
      else if c = CHR ''t'' then Some (CHR 0x09)
      else if c = CHR ''b'' then Some (CHR 0x08)
      else if c = CHR ''f'' then Some (CHR 0x0C)
      else None)"

definition is_space :: "char \<Rightarrow> bool" where
  "is_space c = (c = CHR '' '' \<or> c = CHR 0x0A \<or> c = CHR 0x0D \<or> c = CHR 0x09)"

text \<open>\<open>utf16.DecodeRune\<close> on the values of two \<open>\u\<close> escapes.\<close>

definition is_surrogate :: "nat \<Rightarrow> bool" where
  "is_surrogate r = (55296 \<le> r \<and> r < 57344)"

definition surrogate_pair :: "nat \<Rightarrow> nat \<Rightarrow> nat option" where
  "surrogate_pair r1 r2 =
     (if 55296 \<le> r1 \<and> r1 < 56320 \<and> 56320 \<le> r2 \<and> r2 < 57344
      then Some ((r1 - 55296) * 1024 + (r2 - 56320) + 65536)
      else None)"

text \<open>The text is cut into tokens by a scanner that is outside a string or inside one,
  where it collects the bytes of the string (last byte first). Inside a string a
  backslash starts an escape; an escape of a surrogate that is not followed by the escape
  of its partner gives U+FFFD; a control character is an error; a rune is copied, and a
  byte of 128 or more that starts no rune gives U+FFFD.\<close>

fun lex :: "mode \<Rightarrow> string \<Rightarrow> string \<Rightarrow> token list option" where
  "lex Outside acc [] = Some []"
| "lex InString acc [] = None"
| "lex Outside acc (c # cs) =
     (if is_space c then lex Outside acc cs
      else if c = CHR 0x22 then lex InString [] cs
      else if c = CHR ''{'' then map_option (Cons LBrace) (lex Outside acc cs)
      else if c = CHR ''}'' then map_option (Cons RBrace) (lex Outside acc cs)
      else if c = CHR '':'' then map_option (Cons Colon) (lex Outside acc cs)
      else if c = CHR '','' then map_option (Cons Comma) (lex Outside acc cs)
      else None)"
| "lex InString acc (c # cs) =
     (if c = CHR 0x22 then map_option (Cons (Str (rev acc))) (lex Outside [] cs)
      else if c = CHR 0x5C then
        (case cs of
           [] \<Rightarrow> None
         | e # cs1 \<Rightarrow>
             if e = CHR ''u'' then
               (case getu4 (c # cs) of
                  None \<Rightarrow> None
                | Some r1 \<Rightarrow>
                    if is_surrogate r1 then
                      (case Option.bind (getu4 (drop 5 cs)) (surrogate_pair r1) of
                         Some r \<Rightarrow> lex InString (rev (encode_rune r) @ acc) (drop 11 cs)
                       | None \<Rightarrow> lex InString (rev replacement @ acc) (drop 5 cs))
                    else lex InString (rev (encode_rune r1) @ acc) (drop 5 cs))
             else
               (case unescape e of
                  None \<Rightarrow> None
                | Some d \<Rightarrow> lex InString (d # acc) cs1))
      else if of_char c < (32::nat) then None
      else if of_char c < (128::nat) then lex InString (c # acc) cs
      else if rune_len (c # cs) = 0 then lex InString (rev replacement @ acc) cs
      else lex InString (rev (take (rune_len (c # cs)) (c # cs)) @ acc)
             (drop (rune_len (c # cs) - 1) cs))"

text \<open>An object is a brace, members \<open>"key": "value"\<close> separated by commas, and a brace,
  with nothing after it.\<close>

fun members :: "token list \<Rightarrow> (string \<times> string) list option" where
  "members (Str k # Colon # Str v # RBrace # []) = Some [(k, v)]"
| "members (Str k # Colon # Str v # Comma # ts) = map_option (Cons (k, v)) (members ts)"
| "members ts = None"

fun object :: "token list \<Rightarrow> (string \<times> string) list option" where
  "object (LBrace # RBrace # []) = Some []"
| "object (LBrace # ts) = members ts"
| "object ts = None"

definition parse :: "string \<Rightarrow> (string \<times> string) list option" where
  "parse text = (case lex Outside [] text of None \<Rightarrow> None | Some ts \<Rightarrow> object ts)"

definition go_unmarshal :: "string \<Rightarrow> (string, string) fmap \<Rightarrow> error option \<times> (string, string) fmap" where
  "go_unmarshal text m =
     (case parse text of
        None \<Rightarrow> (Some (ErrJSON ''invalid input''), m)
      | Some kvs \<Rightarrow> (None, foldl (\<lambda>m (k, v). fmupd k v m) m kvs))"

text \<open>The request struct has the one field \<open>url\<close>; a missing member leaves it empty.
  The member is looked up under the name \<open>url\<close> as written (the library also takes other
  capitalisations of the name).\<close>

definition go_unmarshal_url :: "string \<Rightarrow> error + string" where
  "go_unmarshal_url text =
     (case parse text of
        None \<Rightarrow> Inl (ErrJSON ''invalid input'')
      | Some kvs \<Rightarrow> Inr (case map_of (rev kvs) ''url'' of None \<Rightarrow> [] | Some v \<Rightarrow> v))"

definition go_json :: json where
  "go_json = \<lparr>marshal = go_marshal, unmarshal = go_unmarshal, unmarshal_url = go_unmarshal_url\<rparr>"

section \<open>Properties\<close>

subsection \<open>save, step by step\<close>

text \<open>The four ways a run of \<open>save\<close> can go, and what each leaves on disk.\<close>

lemma save_create_fails:
  "create_fault flt = Some e \<Longrightarrow> save js flt m files = (Some e, files)"
  by (simp add: save_def os_Create_def)

lemma save_write_fails:
  "create_fault flt = None \<Longrightarrow> write_fault flt = Some (n, e) \<Longrightarrow>
   save js flt m files = (Some e, files(dbFile @ ''.tmp'' \<mapsto> take n (marshal js [] ''  '' m)))"
  by (simp add: save_def os_Create_def Encoder_Encode_def file_Write_def)

lemma save_rename_fails:
  "create_fault flt = None \<Longrightarrow> write_fault flt = None \<Longrightarrow> rename_fault flt = Some e \<Longrightarrow>
   save js flt m files = (Some e, files(dbFile @ ''.tmp'' \<mapsto> marshal js [] ''  '' m))"
  by (simp add: save_def os_Create_def Encoder_Encode_def file_Write_def os_Rename_def)

lemma save_ok:
  "create_fault flt = None \<Longrightarrow> write_fault flt = None \<Longrightarrow> rename_fault flt = None \<Longrightarrow>
   save js flt m files =
     (None, (files(dbFile @ ''.tmp'' := None))(dbFile \<mapsto> marshal js [] ''  '' m))"
  by (simp add: save_def os_Create_def Encoder_Encode_def file_Write_def os_Rename_def)

lemma save_cases:
  obtains (create_failed) e where "create_fault flt = Some e"
  | (write_failed) n e where "create_fault flt = None" and "write_fault flt = Some (n, e)"
  | (rename_failed) e where "create_fault flt = None" and "write_fault flt = None"
      and "rename_fault flt = Some e"
  | (succeeded) "create_fault flt = None" and "write_fault flt = None"
      and "rename_fault flt = None"
  by (cases "create_fault flt"; cases "write_fault flt"; cases "rename_fault flt") auto

lemma save_snapshot:
  "snd (save js flt m files) dbFile =
     (if fst (save js flt m files) = None then Some (marshal js [] ''  '' m) else files dbFile)"
  by (cases flt rule: save_cases)
     (simp_all add: save_create_fails save_write_fails save_rename_fails save_ok)

lemma take_min_length: "take (min n (length xs)) xs = take n xs"
  by (simp add: min_def)

lemma last_save_trace: "last (save_trace js flt m files) = snd (save js flt m files)"
proof (cases flt rule: save_cases)
  case (create_failed e)
  then show ?thesis by (simp add: save_create_fails save_trace_def)
next
  case (write_failed n e)
  then show ?thesis
    by (simp add: save_write_fails save_trace_def Let_def last_map take_min_length)
next
  case (rename_failed e)
  then show ?thesis by (simp add: save_rename_fails save_trace_def Let_def os_Rename_def)
next
  case succeeded
  then show ?thesis by (simp add: save_ok save_trace_def Let_def os_Rename_def)
qed

lemma hd_save_trace: "hd (save_trace js flt m files) = files"
  by (cases flt rule: save_cases) (simp_all add: save_trace_def Let_def)

lemma first_prefix_state:
  "files(name \<mapsto> []) \<in> set (map (\<lambda>k. files(name \<mapsto> take k data)) [0..<Suc n])"
  using imageI [of 0 "set [0..<Suc n]" "\<lambda>k. files(name \<mapsto> take k data)"]
  by (simp del: upt_Suc)

lemma in_set_middle: "x \<in> set ys \<Longrightarrow> x \<in> set (a # ys @ zs)"
  by simp

lemma in_set_tail: "x \<in> set ys \<Longrightarrow> x \<in> set (a # ys)"
  by simp

lemma save_trace_created:
  assumes "create_fault flt = None"
  shows "files(dbFile @ ''.tmp'' \<mapsto> []) \<in> set (save_trace js flt m files)"
proof (cases "write_fault flt")
  case None
  with assms have "save_trace js flt m files =
      files # map (\<lambda>k. files(dbFile @ ''.tmp'' \<mapsto> take k (marshal js [] ''  '' m)))
                [0..<Suc (length (marshal js [] ''  '' m))]
        @ [snd (os_Rename (rename_fault flt) (dbFile @ ''.tmp'') dbFile
                  (files(dbFile @ ''.tmp'' \<mapsto> marshal js [] ''  '' m)))]"
    by (simp add: save_trace_def Let_def del: upt_Suc)
  then show ?thesis
    by (simp only:) (rule in_set_middle, rule first_prefix_state)
next
  case (Some ne)
  obtain n e where "ne = (n, e)" by (cases ne)
  with Some assms have "save_trace js flt m files =
      files # map (\<lambda>k. files(dbFile @ ''.tmp'' \<mapsto> take k (marshal js [] ''  '' m)))
                [0..<Suc (min n (length (marshal js [] ''  '' m)))]"
    by (simp add: save_trace_def Let_def del: upt_Suc)
  then show ?thesis
    by (simp only:) (rule in_set_tail, rule first_prefix_state)
qed

lemma save_trace_elsewhere:
  assumes "s \<in> set (save_trace js flt m files)" and "p \<noteq> dbFile" and "p \<noteq> dbFile @ ''.tmp''"
  shows "s p = files p"
  using assms
  by (cases flt rule: save_cases) (auto simp: save_trace_def Let_def os_Rename_def)

lemma save_trace_untouched:
  assumes "s \<in> set (save_trace js flt m files)"
  shows "p = dbFile \<or> p = dbFile @ ''.tmp'' \<or> s p = files p"
  using save_trace_elsewhere [OF assms, of p] by blast

lemma save_trace_snapshot:
  assumes "s \<in> set (save_trace js flt m files)"
  shows "s dbFile = files dbFile \<or> s dbFile = Some (marshal js [] ''  '' m)"
  using assms
  by (cases flt rule: save_cases) (auto simp: save_trace_def Let_def os_Rename_def)

lemma save_trace_shape:
  assumes "s \<in> set (save_trace js flt m files)"
  shows "s = files \<or> s = snd (save js flt m files)
      \<or> (\<exists>k. s = files(dbFile @ ''.tmp'' \<mapsto> take k (marshal js [] ''  '' m)))"
proof (cases flt rule: save_cases)
  case (create_failed e)
  with assms show ?thesis by (simp add: save_trace_def)
next
  case (write_failed n e)
  with assms show ?thesis by (auto simp: save_trace_def Let_def)
next
  case (rename_failed e)
  with assms show ?thesis
    by (auto simp: save_trace_def Let_def os_Rename_def save_rename_fails)
next
  case succeeded
  with assms show ?thesis
    by (auto simp: save_trace_def Let_def os_Rename_def save_ok
          intro: exI [of _ "length (marshal js [] ''  '' m)"])
qed

text \<open>Every state of the trace after the first is the state some run of \<open>save\<close> ends
  in: the one a failing write leaves, or the final one.\<close>

lemma save_trace_reachable:
  assumes "s \<in> set (save_trace js flt m files)"
  shows "s = files \<or> (\<exists>flt'. s = snd (save js flt' m files))"
proof -
  have "files(dbFile @ ''.tmp'' \<mapsto> take k (marshal js [] ''  '' m))
      = snd (save js \<lparr>create_fault = None, write_fault = Some (k, ErrIO), rename_fault = None\<rparr> m files)"
    for k by (simp add: save_write_fails)
  with save_trace_shape [OF assms] show ?thesis by metis
qed

text \<open>
  Claim C10. When \<open>save\<close> fails before the rename, because the temporary file cannot be
  created or because writing the text fails, it returns that error and \<open>urls.json\<close>
  holds what it held before.
\<close>

theorem save_failure_keeps_snapshot:
  assumes "create_fault flt = Some e \<or> (create_fault flt = None \<and> write_fault flt = Some (n, e))"
  shows "fst (save js flt m files) = Some e \<and> snd (save js flt m files) dbFile = files dbFile"
  using assms by (auto simp: save_create_fails save_write_fails)

theorem save_failure_keeps_snapshot_witness:
  "fst (save go_json \<lparr>create_fault = None, write_fault = Some (3, ErrNoSpace), rename_fault = None\<rparr>
          (fmupd ''aaaaaa'' ''https://example.com/a'' fmempty) [dbFile \<mapsto> ''{}'']) = Some ErrNoSpace \<and>
   snd (save go_json \<lparr>create_fault = None, write_fault = Some (3, ErrNoSpace), rename_fault = None\<rparr>
          (fmupd ''aaaaaa'' ''https://example.com/a'' fmempty) [dbFile \<mapsto> ''{}'']) dbFile = Some ''{}''"
  using save_failure_keeps_snapshot
    [of "\<lparr>create_fault = None, write_fault = Some (3, ErrNoSpace), rename_fault = None\<rparr>"
        ErrNoSpace 3 go_json "fmupd ''aaaaaa'' ''https://example.com/a'' fmempty"
        "[dbFile \<mapsto> ''{}'']"]
  by simp

text \<open>
  Claim C5. \<open>save\<close> writes the text of the whole map, indented by two spaces, to
  \<open>urls.json.tmp\<close> beside \<open>urls.json\<close>, and renames it over \<open>urls.json\<close> only after the
  write has succeeded. In every state the file system passes through, \<open>urls.json\<close> holds
  either what it held before or the complete new text, and no file other than these two
  is touched; at the end it holds the new text exactly when \<open>save\<close> returned no error.
\<close>

theorem save_atomic_snapshot:
  "(\<forall>s \<in> set (save_trace js flt m files).
      (s dbFile = files dbFile \<or> s dbFile = Some (marshal js [] ''  '' m)) \<and>
      (\<forall>p. p = dbFile \<or> p = dbFile @ ''.tmp'' \<or> s p = files p)) \<and>
   hd (save_trace js flt m files) = files \<and>
   last (save_trace js flt m files) = snd (save js flt m files) \<and>
   snd (save js flt m files) dbFile =
     (if fst (save js flt m files) = None then Some (marshal js [] ''  '' m) else files dbFile)"
proof (intro conjI ballI allI)
  fix s p
  assume s: "s \<in> set (save_trace js flt m files)"
  from save_trace_snapshot [OF s]
  show "s dbFile = files dbFile \<or> s dbFile = Some (marshal js [] ''  '' m)" .
  from save_trace_untouched [OF s]
  show "p = dbFile \<or> p = dbFile @ ''.tmp'' \<or> s p = files p" .
qed (rule hd_save_trace last_save_trace save_snapshot)+

theorem save_atomic_snapshot_witness:
  "[dbFile \<mapsto> ''{}'', dbFile @ ''.tmp'' \<mapsto> []]
     \<in> set (save_trace go_json no_faults (fmupd ''aaaaaa'' ''https://example.com/a'' fmempty)
              [dbFile \<mapsto> ''{}'']) \<and>
   [dbFile \<mapsto> ''{}'', dbFile @ ''.tmp'' \<mapsto> []] dbFile = Some ''{}'' \<and>
   fst (save go_json no_faults (fmupd ''aaaaaa'' ''https://example.com/a'' fmempty)
          [dbFile \<mapsto> ''{}'']) = None \<and>
   snd (save go_json no_faults (fmupd ''aaaaaa'' ''https://example.com/a'' fmempty)
          [dbFile \<mapsto> ''{}'']) dbFile
     = Some (marshal go_json [] ''  '' (fmupd ''aaaaaa'' ''https://example.com/a'' fmempty))"
proof -
  have ok: "fst (save go_json no_faults (fmupd ''aaaaaa'' ''https://example.com/a'' fmempty)
                   [dbFile \<mapsto> ''{}'']) = None"
    by (simp add: save_ok no_faults_def)
  have mem: "[dbFile \<mapsto> ''{}'', dbFile @ ''.tmp'' \<mapsto> []]
     \<in> set (save_trace go_json no_faults (fmupd ''aaaaaa'' ''https://example.com/a'' fmempty)
              [dbFile \<mapsto> ''{}''])"
    using save_trace_created [of no_faults "[dbFile \<mapsto> ''{}'']"] by (simp add: no_faults_def)
  show ?thesis
    using ok mem
      save_atomic_snapshot [of go_json no_faults
        "fmupd ''aaaaaa'' ''https://example.com/a'' fmempty" "[dbFile \<mapsto> ''{}'']"]
    by simp
qed

subsection \<open>load\<close>

lemma load_missing:
  "files dbFile = None \<Longrightarrow> load js open_fault m files = (None, m)"
  by (simp add: load_def os_Open_def os_IsNotExist_def)

lemma load_error:
  assumes "load js open_fault m files = (Some e, m')"
  shows "\<exists>content. files dbFile = Some content \<and>
           ((open_fault = Some e \<and> e \<noteq> ErrNotExist \<and> m' = m) \<or>
            (open_fault = None \<and> unmarshal js content m = (Some e, m')))"
  using assms
  by (auto simp: load_def os_Open_def os_IsNotExist_def split: option.splits if_splits)

text \<open>
  Claim C7. With no snapshot file, \<open>load\<close> returns no error and leaves the map as it is,
  so the map \<open>init\<close> has just created stays empty. When \<open>load\<close> does return an error, the
  file is there, and either opening it failed (with an error other than not-exist) or
  decoding its content did.
\<close>

theorem load_without_snapshot:
  "(files dbFile = None \<longrightarrow>
      load js open_fault m files = (None, m) \<and>
      urls (init js open_fault seeded files) = fmempty) \<and>
   (load js open_fault m files = (Some e, m') \<longrightarrow>
      (\<exists>content. files dbFile = Some content \<and>
         ((open_fault = Some e \<and> e \<noteq> ErrNotExist \<and> m' = m) \<or>
          (open_fault = None \<and> unmarshal js content m = (Some e, m')))))"
  using load_missing [of files js open_fault] load_error [of js open_fault m files e m']
  by (auto simp: init_def)

theorem load_without_snapshot_witness:
  "Map.empty dbFile = None \<and>
   load go_json None fmempty Map.empty = (None, fmempty) \<and>
   urls (init go_json None (sconst 0) Map.empty) = fmempty \<and>
   load go_json (Some ErrPermission) fmempty [dbFile \<mapsto> ''{}''] = (Some ErrPermission, fmempty) \<and>
   [dbFile \<mapsto> ''{}''] dbFile = Some ''{}''"
proof -
  have err: "load go_json (Some ErrPermission) fmempty [dbFile \<mapsto> ''{}'']
               = (Some ErrPermission, fmempty)"
    by (simp add: load_def os_Open_def os_IsNotExist_def)
  show ?thesis
    using err
      load_without_snapshot [of Map.empty go_json None fmempty "sconst 0"]
      load_without_snapshot [of "[dbFile \<mapsto> ''{}'']" go_json "Some ErrPermission" fmempty
        "sconst 0" ErrPermission fmempty]
    by simp
qed

subsection \<open>generateCode\<close>

text \<open>The code is six letters picked by the next six draws, and the source moves on by
  six draws.\<close>

lemma generate_eq:
  "generate n g = (map (\<lambda>k. letters ! (k mod length letters)) (stake n g), sdrop n g)"
  by (induction n arbitrary: g) (simp_all add: rand_Intn_def)

lemma letters_length: "length letters = 62"
  by (simp add: letters_def)

lemma generateCode_eq:
  "generateCode g = (map (\<lambda>k. letters ! (k mod 62)) (stake 6 g), sdrop 6 g)"
  by (simp add: generateCode_def codeLength_def generate_eq letters_length)

lemma generateCode_length: "length (fst (generateCode g)) = 6"
  by (simp add: generateCode_eq)

lemma generateCode_letters: "set (fst (generateCode g)) \<subseteq> set letters"
  by (auto simp: generateCode_eq letters_length)

subsection \<open>shorten, one attempt at a time\<close>

lemma shorten_fresh:
  assumes "generateCode (rng st) = (code, g)" and "code |\<notin>| fmdom (urls st)"
  shows "shorten js flt u st =
           (case save js flt (fmupd code u (urls st)) (disk st) of
              (Some err, files) \<Rightarrow>
                Some (Inl err, \<lparr>urls = fmupd code u (urls st), disk = files, rng = g\<rparr>)
            | (None, files) \<Rightarrow>
                Some (Inr (baseURL @ code), \<lparr>urls = fmupd code u (urls st), disk = files, rng = g\<rparr>))"
  using assms by (subst shorten.simps) (simp add: Let_def)

lemma shorten_taken:
  assumes "generateCode (rng st) = (code, g)" and "code |\<in>| fmdom (urls st)"
  shows "shorten js flt u st = shorten js flt u (st\<lparr>rng := g\<rparr>)"
  using assms by (subst shorten.simps) (simp)

text \<open>Whenever \<open>shorten\<close> returns, it has inserted one fresh, well-formed code, run
  \<open>save\<close> once on the enlarged map, and returned the outcome of that \<open>save\<close>.\<close>

lemma shorten_Some:
  assumes "shorten js flt u st = Some y"
  shows "\<exists>code. code |\<notin>| fmdom (urls st) \<and> length code = 6 \<and> set code \<subseteq> set letters \<and>
           urls (snd y) = fmupd code u (urls st) \<and>
           disk (snd y) = snd (save js flt (urls (snd y)) (disk st)) \<and>
           fst y = (case fst (save js flt (urls (snd y)) (disk st)) of
                      Some err \<Rightarrow> Inl err
                    | None \<Rightarrow> Inr (baseURL @ code))"
  using assms
proof (induction rule: shorten.raw_induct [rotated 1, consumes 1])
  case (1 f js flt u st y)
  obtain code g where cg: "generateCode (rng st) = (code, g)"
    by (cases "generateCode (rng st)")
  show ?case
  proof (cases "code |\<in>| fmdom (urls st)")
    case True
    with 1(2) cg have "f js flt u (st\<lparr>rng := g\<rparr>) = Some y" by simp
    from 1(1) [OF this] show ?thesis by simp
  next
    case False
    have len: "length code = 6" using generateCode_length [of "rng st"] cg by simp
    have alpha: "set code \<subseteq> set letters" using generateCode_letters [of "rng st"] cg by simp
    obtain err files where sv: "save js flt (fmupd code u (urls st)) (disk st) = (err, files)"
      by (cases "save js flt (fmupd code u (urls st)) (disk st)")
    from 1(2) cg False sv
    have "y = (case err of Some e \<Rightarrow> Inl e | None \<Rightarrow> Inr (baseURL @ code),
               \<lparr>urls = fmupd code u (urls st), disk = files, rng = g\<rparr>)"
      by (cases err) (simp_all add: Let_def)
    with False len alpha sv show ?thesis
      by (intro exI [of _ code]) (cases err; simp)
  qed
qed

text \<open>\<open>shorten\<close> returns as soon as one of the attempts draws a code that is not in the
  map.\<close>

lemma shorten_returns:
  assumes "fst (generateCode (sdrop (6 * k) (rng st))) |\<notin>| fmdom (urls st)"
  shows "\<exists>y. shorten js flt u st = Some y"
  using assms
proof (induction k arbitrary: st)
  case 0
  obtain code g where cg: "generateCode (rng st) = (code, g)"
    by (cases "generateCode (rng st)")
  with 0 have "code |\<notin>| fmdom (urls st)" by simp
  from shorten_fresh [OF cg this, of js flt u] show ?case
    by (cases "save js flt (fmupd code u (urls st)) (disk st)")
       (auto split: option.splits)
next
  case (Suc k)
  obtain code g where cg: "generateCode (rng st) = (code, g)"
    by (cases "generateCode (rng st)")
  then have g: "g = sdrop 6 (rng st)" by (simp add: generateCode_eq)
  show ?case
  proof (cases "code |\<in>| fmdom (urls st)")
    case True
    have "fst (generateCode (sdrop (6 * k) (rng (st\<lparr>rng := g\<rparr>)))) |\<notin>| fmdom (urls (st\<lparr>rng := g\<rparr>))"
      using Suc.prems g by (simp add: add.commute)
    from Suc.IH [OF this] shorten_taken [OF cg True, of js flt u] show ?thesis by simp
  next
    case False
    from shorten_fresh [OF cg this, of js flt u] show ?thesis
      by (cases "save js flt (fmupd code u (urls st)) (disk st)")
         (auto split: option.splits)
  qed
qed

subsection \<open>Concrete runs\<close>

text \<open>A source that keeps drawing the same number gives the same letter six times; a
  source with a finite prefix gives the letters of that prefix first.\<close>

lemma stake_sconst: "stake n (sconst x) = replicate n x"
  by (induction n) (simp_all del: stake_siterate)

lemma replicate_6: "replicate 6 x = [x, x, x, x, x, x]"
  by (simp add: numeral_eq_Suc)

lemma generateCode_sconst:
  "generateCode (sconst k) = (replicate 6 (letters ! (k mod 62)), sconst k)"
  by (simp add: generateCode_eq stake_sconst del: stake_siterate)

lemma generateCode_shift:
  "length xs = 6 \<Longrightarrow> generateCode (xs @- g) = (map (\<lambda>k. letters ! (k mod 62)) xs, g)"
  by (simp add: generateCode_eq stake_shift sdrop_shift)

lemma letters_0: "letters ! 0 = CHR ''a''"
  by (simp add: letters_def)

lemma letters_1: "letters ! Suc 0 = CHR ''b''"
  by (simp add: letters_def)

lemma code_a: "generateCode (sconst 0) = (''aaaaaa'', sconst 0)"
  by (simp add: generateCode_sconst letters_0 replicate_6)

lemma code_b: "generateCode (sconst 1) = (''bbbbbb'', sconst 1)"
  by (simp add: generateCode_sconst letters_1 replicate_6)

lemma code_ab: "generateCode (replicate 6 0 @- sconst 1) = (''aaaaaa'', sconst 1)"
  using generateCode_shift [of "replicate 6 0" "sconst 1"]
  by (simp add: letters_0 replicate_6)

text \<open>First call on an empty store, nothing failing: the code \<open>aaaaaa\<close> is taken at once.\<close>

lemma run_first:
  "shorten js no_faults u \<lparr>urls = fmempty, disk = d, rng = sconst 0\<rparr> =
     Some (Inr (baseURL @ ''aaaaaa''),
           \<lparr>urls = fmupd ''aaaaaa'' u fmempty,
            disk = (d(dbFile @ ''.tmp'' := None))
                     (dbFile \<mapsto> marshal js [] ''  '' (fmupd ''aaaaaa'' u fmempty)),
            rng = sconst 0\<rparr>)"
proof -
  have cg: "generateCode (rng \<lparr>urls = fmempty, disk = d, rng = sconst 0\<rparr>) = (''aaaaaa'', sconst 0)"
    by (simp add: code_a)
  show ?thesis
    by (subst shorten_fresh [OF cg]) (simp_all add: save_ok no_faults_def)
qed

text \<open>A call that first draws the code already in the map, then a fresh one.\<close>

lemma run_retry:
  "shorten js no_faults u
     \<lparr>urls = fmupd ''aaaaaa'' v fmempty, disk = d, rng = replicate 6 0 @- sconst 1\<rparr> =
     Some (Inr (baseURL @ ''bbbbbb''),
           \<lparr>urls = fmupd ''bbbbbb'' u (fmupd ''aaaaaa'' v fmempty),
            disk = (d(dbFile @ ''.tmp'' := None))
                     (dbFile \<mapsto> marshal js [] ''  '' (fmupd ''bbbbbb'' u (fmupd ''aaaaaa'' v fmempty))),
            rng = sconst 1\<rparr>)"
proof -
  let ?st = "\<lparr>urls = fmupd ''aaaaaa'' v fmempty, disk = d, rng = replicate 6 0 @- sconst 1\<rparr>"
  have cg1: "generateCode (rng ?st) = (''aaaaaa'', sconst 1)"
    using code_ab by simp
  have cg2: "generateCode (rng (?st\<lparr>rng := sconst 1\<rparr>)) = (''bbbbbb'', sconst 1)"
    using code_b by simp
  have "shorten js no_faults u ?st = shorten js no_faults u (?st\<lparr>rng := sconst 1\<rparr>)"
    by (rule shorten_taken [OF cg1]) simp
  also have "\<dots> = Some (Inr (baseURL @ ''bbbbbb''),
           \<lparr>urls = fmupd ''bbbbbb'' u (fmupd ''aaaaaa'' v fmempty),
            disk = (d(dbFile @ ''.tmp'' := None))
                     (dbFile \<mapsto> marshal js [] ''  '' (fmupd ''bbbbbb'' u (fmupd ''aaaaaa'' v fmempty))),
            rng = sconst 1\<rparr>)"
    by (subst shorten_fresh [OF cg2]) (simp_all add: save_ok no_faults_def)
  finally show ?thesis .
qed

text \<open>A call during which the temporary file cannot be created.\<close>

lemma run_create_fails:
  "shorten js \<lparr>create_fault = Some e, write_fault = None, rename_fault = None\<rparr> u
     \<lparr>urls = fmempty, disk = d, rng = sconst 0\<rparr> =
     Some (Inl e, \<lparr>urls = fmupd ''aaaaaa'' u fmempty, disk = d, rng = sconst 0\<rparr>)"
proof -
  have cg: "generateCode (rng \<lparr>urls = fmempty, disk = d, rng = sconst 0\<rparr>) = (''aaaaaa'', sconst 0)"
    by (simp add: code_a)
  show ?thesis
    by (subst shorten_fresh [OF cg]) (simp_all add: save_create_fails)
qed

text \<open>The instance \<open>go_json\<close> on a map of two entries: the text it writes, and reading
  that text back.\<close>

lemma sorted_list_of_fset_empty: "sorted_list_of_fset {||} = []"
  by (simp add: sorted_list_of_fset.rep_eq)
lemma sorted_list_of_fset_finsert:
  "k |\<notin>| S \<Longrightarrow> sorted_list_of_fset (finsert k S) = insort k (sorted_list_of_fset S)"
  by (simp add: sorted_list_of_fset.rep_eq)

lemma map_insort_pair:
  "map (\<lambda>k. (k, f k)) (insort k xs) = insort_key fst (k, f k) (map (\<lambda>k. (k, f k)) xs)"
  by (induction xs) simp_all

lemma sorted_list_of_fmap_empty: "sorted_list_of_fmap fmempty = []"
  by (simp add: sorted_list_of_fmap_def sorted_list_of_fset_empty)

lemma sorted_list_of_fmap_fmupd:
  assumes "k |\<notin>| fmdom m"
  shows "sorted_list_of_fmap (fmupd k v m) = insort_key fst (k, v) (sorted_list_of_fmap m)"
proof -
  let ?g = "\<lambda>k'. the (fmlookup (fmupd k v m) k')"
  let ?L = "sorted_list_of_fset (fmdom m)"
  have "sorted_list_of_fmap (fmupd k v m) = map (\<lambda>k'. (k', ?g k')) (insort k ?L)"
    by (simp only: sorted_list_of_fmap_def fmdom_fmupd sorted_list_of_fset_finsert [OF assms])
  also have "\<dots> = insort_key fst (k, ?g k) (map (\<lambda>k'. (k', ?g k')) ?L)"
    by (rule map_insort_pair)
  also have "?g k = v" by simp
  also have "map (\<lambda>k'. (k', ?g k')) ?L = map (\<lambda>k'. (k', the (fmlookup m k'))) ?L"
    using assms by (intro map_cong) auto
  finally show ?thesis by (simp only: sorted_list_of_fmap_def)
qed


lemma kvs_example:
  "sorted_list_of_fmap
     (fmupd ''bbbbbb'' ''https://example.com/b'' (fmupd ''aaaaaa'' ''https://example.com/a'' fmempty))
   = [(''aaaaaa'', ''https://example.com/a''), (''bbbbbb'', ''https://example.com/b'')]"
  by (simp add: sorted_list_of_fmap_fmupd sorted_list_of_fmap_empty less_eq_char_def less_char_def)

lemma text_example:
  "go_marshal [] ''  ''
     (fmupd ''bbbbbb'' ''https://example.com/b'' (fmupd ''aaaaaa'' ''https://example.com/a'' fmempty))
   = ''{'' @ [CHR 0x0A] @ ''  '' @ [CHR 0x22] @ ''aaaaaa'' @ [CHR 0x22] @ '': '' @ [CHR 0x22]
       @ ''https://example.com/a'' @ [CHR 0x22] @ '','' @ [CHR 0x0A] @ ''  '' @ [CHR 0x22] @ ''bbbbbb''
       @ [CHR 0x22] @ '': '' @ [CHR 0x22] @ ''https://example.com/b'' @ [CHR 0x22] @ [CHR 0x0A] @ ''}''
       @ [CHR 0x0A]"
  by (simp add: go_marshal_def kvs_example quote_def escape_def)

lemma parse_example:
  "parse (''{'' @ [CHR 0x0A] @ ''  '' @ [CHR 0x22] @ ''aaaaaa'' @ [CHR 0x22] @ '': '' @ [CHR 0x22]
       @ ''https://example.com/a'' @ [CHR 0x22] @ '','' @ [CHR 0x0A] @ ''  '' @ [CHR 0x22] @ ''bbbbbb''
       @ [CHR 0x22] @ '': '' @ [CHR 0x22] @ ''https://example.com/b'' @ [CHR 0x22] @ [CHR 0x0A] @ ''}''
       @ [CHR 0x0A])
   = Some [(''aaaaaa'', ''https://example.com/a''), (''bbbbbb'', ''https://example.com/b'')]"
  by (simp add: parse_def is_space_def)

lemma roundtrip_example:
  "unmarshal go_json
     (marshal go_json [] ''  ''
        (fmupd ''bbbbbb'' ''https://example.com/b'' (fmupd ''aaaaaa'' ''https://example.com/a'' fmempty)))
     fmempty =
   (None, fmupd ''bbbbbb'' ''https://example.com/b'' (fmupd ''aaaaaa'' ''https://example.com/a'' fmempty))"
  by (simp only: go_json_def json.simps go_unmarshal_def text_example parse_example) simp

lemma url_example:
  \<open>unmarshal_url go_json ''{"url":""}'' = Inr []\<close>
  by (simp add: go_json_def go_unmarshal_url_def parse_def is_space_def)



subsection \<open>Well-formed codes\<close>

lemma letters_alnum:
  "map of_char letters = ([97..<123] @ [65..<91] @ [48..<58] :: nat list)"
  by (simp add: letters_def upt_rec)

lemma letters_distinct: "distinct letters"
  by (simp add: letters_def)

text \<open>
  Claim C6. Whatever the random source draws, \<open>generateCode\<close> returns six symbols of
  \<open>letters\<close>, which are the 62 distinct characters \<open>a\<close> to \<open>z\<close>, \<open>A\<close> to \<open>Z\<close> and \<open>0\<close> to
  \<open>9\<close>; and whenever \<open>shorten\<close> returns, the one key it has added to the map is such a
  code.
\<close>

theorem generated_codes_well_formed:
  "length (fst (generateCode g)) = 6 \<and>
   set (fst (generateCode g)) \<subseteq> set letters \<and>
   length letters = 62 \<and> distinct letters \<and>
   map of_char letters = ([97..<123] @ [65..<91] @ [48..<58] :: nat list) \<and>
   (shorten js flt u st = Some (r, st') \<longrightarrow>
      (\<exists>code. urls st' = fmupd code u (urls st) \<and> code |\<notin>| fmdom (urls st) \<and>
              length code = 6 \<and> set code \<subseteq> set letters))"
proof -
  have "shorten js flt u st = Some (r, st') \<longrightarrow>
      (\<exists>code. urls st' = fmupd code u (urls st) \<and> code |\<notin>| fmdom (urls st) \<and>
              length code = 6 \<and> set code \<subseteq> set letters)"
  proof
    assume "shorten js flt u st = Some (r, st')"
    from shorten_Some [OF this] show "\<exists>code. urls st' = fmupd code u (urls st) \<and>
        code |\<notin>| fmdom (urls st) \<and> length code = 6 \<and> set code \<subseteq> set letters"
      by auto
  qed
  then show ?thesis
    using generateCode_length [of g] generateCode_letters [of g] letters_length
      letters_distinct letters_alnum
    by simp
qed

theorem generated_codes_well_formed_witness:
  "shorten go_json no_faults ''https://example.com/b''
     \<lparr>urls = fmupd ''aaaaaa'' ''https://example.com/a'' fmempty, disk = Map.empty,
      rng = replicate 6 0 @- sconst 1\<rparr>
   = Some (Inr (baseURL @ ''bbbbbb''),
       \<lparr>urls = fmupd ''bbbbbb'' ''https://example.com/b''
                (fmupd ''aaaaaa'' ''https://example.com/a'' fmempty),
        disk = [dbFile \<mapsto> marshal go_json [] ''  ''
                  (fmupd ''bbbbbb'' ''https://example.com/b''
                     (fmupd ''aaaaaa'' ''https://example.com/a'' fmempty))],
        rng = sconst 1\<rparr>) \<and>
   length ''bbbbbb'' = 6 \<and> set ''bbbbbb'' \<subseteq> set letters"
proof -
  have run: "shorten go_json no_faults ''https://example.com/b''
     \<lparr>urls = fmupd ''aaaaaa'' ''https://example.com/a'' fmempty, disk = Map.empty,
      rng = replicate 6 0 @- sconst 1\<rparr>
   = Some (Inr (baseURL @ ''bbbbbb''),
       \<lparr>urls = fmupd ''bbbbbb'' ''https://example.com/b''
                (fmupd ''aaaaaa'' ''https://example.com/a'' fmempty),
        disk = [dbFile \<mapsto> marshal go_json [] ''  ''
                  (fmupd ''bbbbbb'' ''https://example.com/b''
                     (fmupd ''aaaaaa'' ''https://example.com/a'' fmempty))],
        rng = sconst 1\<rparr>)"
    using run_retry [of go_json "''https://example.com/b''" "''https://example.com/a''" Map.empty]
    by simp
  from generated_codes_well_formed [of "sconst 1" go_json no_faults "''https://example.com/b''",
      THEN conjunct2, THEN conjunct2, THEN conjunct2, THEN conjunct2, THEN conjunct2,
      THEN mp, OF run]
  obtain code where c: "fmupd ''bbbbbb'' ''https://example.com/b''
                (fmupd ''aaaaaa'' ''https://example.com/a'' fmempty)
      = fmupd code ''https://example.com/b'' (fmupd ''aaaaaa'' ''https://example.com/a'' fmempty)"
      "code |\<notin>| fmdom (fmupd ''aaaaaa'' ''https://example.com/a'' fmempty)"
      "length code = 6" "set code \<subseteq> set letters"
    by auto
  from c(1) have "fmdom (fmupd ''bbbbbb'' ''https://example.com/b''
                (fmupd ''aaaaaa'' ''https://example.com/a'' fmempty))
      = fmdom (fmupd code ''https://example.com/b'' (fmupd ''aaaaaa'' ''https://example.com/a'' fmempty))"
    by simp
  with c(2) have "code = ''bbbbbb''" by auto
  with c run show ?thesis by simp
qed

subsection \<open>What go_json reads back\<close>



























lemma valid_example: "valid_utf8 ''https://example.com/b''"
  by (simp add: rune_len_def)

lemma not_valid_example: "\<not> valid_utf8 [CHR ''a'', CHR 0xFF, CHR ''b'']"
  by (simp add: rune_len_def)

subsection \<open>Round trip, failure and reload\<close>

lemma baseURL_length: "length baseURL = 22"
  by (simp add: baseURL_def)

text \<open>On a non-empty path \<open>redirectHandler\<close> looks up what follows the first byte.\<close>

lemma redirectHandler_Cons:
  "redirectHandler st (c # code) =
     Inr (case fmlookup (urls st) code of
            Some dest \<Rightarrow> Redirect dest StatusFound
          | None \<Rightarrow> http_NotFound)"
  by (simp add: redirectHandler_def split: option.splits)

text \<open>The two ways a returning call ends.\<close>

lemma shorten_ok:
  assumes "shorten js flt u st = Some (Inr short, st')"
  shows "\<exists>code. short = baseURL @ code \<and> code |\<notin>| fmdom (urls st) \<and>
           urls st' = fmupd code u (urls st) \<and>
           save js flt (urls st') (disk st) = (None, disk st')"
proof -
  from shorten_Some [OF assms] obtain code where
    c: "code |\<notin>| fmdom (urls st)" "urls st' = fmupd code u (urls st)"
       "disk st' = snd (save js flt (urls st') (disk st))"
       "Inr short = (case fst (save js flt (urls st') (disk st)) of
                      Some err \<Rightarrow> Inl err | None \<Rightarrow> Inr (baseURL @ code))"
    by auto
  from c(4) have "fst (save js flt (urls st') (disk st)) = None \<and> short = baseURL @ code"
    by (cases "fst (save js flt (urls st') (disk st))") simp_all
  with c show ?thesis by (intro exI [of _ code]) (simp add: prod_eq_iff)
qed

lemma shorten_failed:
  assumes "shorten js flt u st = Some (Inl e, st')"
  shows "\<exists>code. code |\<notin>| fmdom (urls st) \<and>
           urls st' = fmupd code u (urls st) \<and>
           save js flt (urls st') (disk st) = (Some e, disk st')"
proof -
  from shorten_Some [OF assms] obtain code where
    c: "code |\<notin>| fmdom (urls st)" "urls st' = fmupd code u (urls st)"
       "disk st' = snd (save js flt (urls st') (disk st))"
       "Inl e = (case fst (save js flt (urls st') (disk st)) of
                      Some err \<Rightarrow> Inl err | None \<Rightarrow> Inr (baseURL @ code))"
    by auto
  from c(4) have "fst (save js flt (urls st') (disk st)) = Some e"
    by (cases "fst (save js flt (urls st') (disk st))") simp_all
  with c show ?thesis by (intro exI [of _ code]) (simp add: prod_eq_iff)
qed

text \<open>
  Claim C2. When \<open>shorten u\<close> returns a short URL, that URL is \<open>baseURL\<close> followed by a
  code, the map holds \<open>u\<close> under that code, and \<open>redirectHandler\<close> on \<open>/code\<close> redirects to
  \<open>u\<close>; this holds for every \<open>u\<close>, the empty string included. And the call does return a
  short URL when nothing fails in \<open>save\<close> and some attempt draws a code that is not in
  the map.
\<close>

theorem shorten_round_trip:
  "(shorten js flt u st = Some (Inr short, st') \<longrightarrow>
      take (length baseURL) short = baseURL \<and>
      fmlookup (urls st') (drop (length baseURL) short) = Some u \<and>
      redirectHandler st' (CHR ''/'' # drop (length baseURL) short) = Inr (Redirect u StatusFound)) \<and>
   (flt = no_faults \<and> fst (generateCode (sdrop (6 * k) (rng st))) |\<notin>| fmdom (urls st) \<longrightarrow>
      (\<exists>short st'. shorten js flt u st = Some (Inr short, st')))"
proof (intro conjI impI)
  assume run: "shorten js flt u st = Some (Inr short, st')"
  from shorten_ok [OF run] obtain code where
    c: "short = baseURL @ code" "urls st' = fmupd code u (urls st)" by auto
  from c show "take (length baseURL) short = baseURL" by simp
  from c show "fmlookup (urls st') (drop (length baseURL) short) = Some u" by simp
  then show "redirectHandler st' (CHR ''/'' # drop (length baseURL) short)
      = Inr (Redirect u StatusFound)"
    by (simp add: redirectHandler_Cons)
next
  assume a: "flt = no_faults \<and> fst (generateCode (sdrop (6 * k) (rng st))) |\<notin>| fmdom (urls st)"
  then obtain y where y: "shorten js flt u st = Some y"
    using shorten_returns [of k st js flt u] by auto
  from a have "fst (save js flt (urls (snd y)) (disk st)) = None"
    by (simp add: save_ok no_faults_def)
  with shorten_Some [OF y] obtain code where "fst y = Inr (baseURL @ code)" by auto
  with y have "shorten js flt u st = Some (Inr (baseURL @ code), snd y)"
    by (simp add: prod_eq_iff)
  then show "\<exists>short st'. shorten js flt u st = Some (Inr short, st')" by blast
qed

theorem shorten_round_trip_witness:
  "shorten go_json no_faults ''https://example.com/b''
     \<lparr>urls = fmupd ''aaaaaa'' ''https://example.com/a'' fmempty, disk = Map.empty,
      rng = replicate 6 0 @- sconst 1\<rparr>
   = Some (Inr ''http://localhost:8080/bbbbbb'',
       \<lparr>urls = fmupd ''bbbbbb'' ''https://example.com/b''
                (fmupd ''aaaaaa'' ''https://example.com/a'' fmempty),
        disk = [dbFile \<mapsto> marshal go_json [] ''  ''
                  (fmupd ''bbbbbb'' ''https://example.com/b''
                     (fmupd ''aaaaaa'' ''https://example.com/a'' fmempty))],
        rng = sconst 1\<rparr>) \<and>
   fmlookup (fmupd ''bbbbbb'' ''https://example.com/b''
               (fmupd ''aaaaaa'' ''https://example.com/a'' fmempty))
     (drop (length baseURL) ''http://localhost:8080/bbbbbb'') = Some ''https://example.com/b'' \<and>
   redirectHandler
     \<lparr>urls = fmupd ''bbbbbb'' ''https://example.com/b''
                (fmupd ''aaaaaa'' ''https://example.com/a'' fmempty),
        disk = [dbFile \<mapsto> marshal go_json [] ''  ''
                  (fmupd ''bbbbbb'' ''https://example.com/b''
                     (fmupd ''aaaaaa'' ''https://example.com/a'' fmempty))],
        rng = sconst 1\<rparr> ''/bbbbbb'' = Inr (Redirect ''https://example.com/b'' StatusFound) \<and>
   fst (generateCode (sdrop (6 * 1) (replicate 6 0 @- sconst 1)))
     |\<notin>| fmdom (fmupd ''aaaaaa'' ''https://example.com/a'' fmempty)"
proof -
  let ?st = "\<lparr>urls = fmupd ''aaaaaa'' ''https://example.com/a'' fmempty, disk = Map.empty,
      rng = replicate 6 0 @- sconst 1\<rparr>"
  let ?st' = "\<lparr>urls = fmupd ''bbbbbb'' ''https://example.com/b''
                (fmupd ''aaaaaa'' ''https://example.com/a'' fmempty),
        disk = [dbFile \<mapsto> marshal go_json [] ''  ''
                  (fmupd ''bbbbbb'' ''https://example.com/b''
                     (fmupd ''aaaaaa'' ''https://example.com/a'' fmempty))],
        rng = sconst 1\<rparr>"
  have run: "shorten go_json no_faults ''https://example.com/b'' ?st
      = Some (Inr ''http://localhost:8080/bbbbbb'', ?st')"
    using run_retry [of go_json "''https://example.com/b''" "''https://example.com/a''" Map.empty]
    by (simp add: baseURL_def)
  have fresh: "fst (generateCode (sdrop (6 * 1) (replicate 6 0 @- sconst 1)))
     |\<notin>| fmdom (fmupd ''aaaaaa'' ''https://example.com/a'' fmempty)"
    using code_b by (simp add: sdrop_shift)
  from shorten_round_trip [of go_json no_faults "''https://example.com/b''" ?st
      "''http://localhost:8080/bbbbbb''" ?st' 1] run fresh
  show ?thesis by (simp add: baseURL_length)
qed

text \<open>
  Claim C1, as the program has it. \<open>shorten\<close> has no rollback: when \<open>save\<close> fails, the call
  returns the error of \<open>save\<close>, \<open>urls.json\<close> holds what it held before, and the map keeps
  the entry for the new code beside all earlier entries.
\<close>

theorem shorten_failure_keeps_entry:
  assumes "shorten js flt u st = Some (Inl e, st')"
  shows "\<exists>code. code |\<notin>| fmdom (urls st) \<and>
           urls st' = fmupd code u (urls st) \<and>
           fmlookup (urls st') code = Some u \<and>
           fst (save js flt (urls st') (disk st)) = Some e \<and>
           disk st' dbFile = disk st dbFile"
proof -
  from shorten_failed [OF assms] obtain code where
    c: "code |\<notin>| fmdom (urls st)" "urls st' = fmupd code u (urls st)"
       "save js flt (urls st') (disk st) = (Some e, disk st')"
    by auto
  from c(3) save_snapshot [of js flt "urls st'" "disk st"]
  have "disk st' dbFile = disk st dbFile" by simp
  with c show ?thesis by (intro exI [of _ code]) simp
qed

theorem shorten_failure_keeps_entry_witness:
  "shorten go_json \<lparr>create_fault = Some ErrPermission, write_fault = None, rename_fault = None\<rparr>
     ''https://example.com/a'' \<lparr>urls = fmempty, disk = [dbFile \<mapsto> ''{}''], rng = sconst 0\<rparr>
   = Some (Inl ErrPermission,
       \<lparr>urls = fmupd ''aaaaaa'' ''https://example.com/a'' fmempty, disk = [dbFile \<mapsto> ''{}''],
        rng = sconst 0\<rparr>) \<and>
   fst (save go_json \<lparr>create_fault = Some ErrPermission, write_fault = None, rename_fault = None\<rparr>
          (fmupd ''aaaaaa'' ''https://example.com/a'' fmempty) [dbFile \<mapsto> ''{}''])
     = Some ErrPermission"
proof -
  have run: "shorten go_json
     \<lparr>create_fault = Some ErrPermission, write_fault = None, rename_fault = None\<rparr>
     ''https://example.com/a'' \<lparr>urls = fmempty, disk = [dbFile \<mapsto> ''{}''], rng = sconst 0\<rparr>
   = Some (Inl ErrPermission,
       \<lparr>urls = fmupd ''aaaaaa'' ''https://example.com/a'' fmempty, disk = [dbFile \<mapsto> ''{}''],
        rng = sconst 0\<rparr>)"
    by (rule run_create_fails)
  from shorten_failure_keeps_entry [OF run] run show ?thesis by auto
qed

text \<open>
  Claim C1 as stated says the map is left without the new code. On an empty store, with
  the random source drawing 0 and \<open>os.Create\<close> refusing permission, \<open>shorten\<close> returns the
  error and the map, empty before the call, holds \<open>aaaaaa\<close> after it.
\<close>

theorem shorten_rollback_counterexample:
  "shorten go_json \<lparr>create_fault = Some ErrPermission, write_fault = None, rename_fault = None\<rparr>
     ''https://example.com/a'' \<lparr>urls = fmempty, disk = [dbFile \<mapsto> ''{}''], rng = sconst 0\<rparr>
   = Some (Inl ErrPermission,
       \<lparr>urls = fmupd ''aaaaaa'' ''https://example.com/a'' fmempty, disk = [dbFile \<mapsto> ''{}''],
        rng = sconst 0\<rparr>) \<and>
   fmlookup fmempty ''aaaaaa'' = (None :: string option) \<and>
   fmlookup (fmupd ''aaaaaa'' ''https://example.com/a'' fmempty) ''aaaaaa''
     = Some ''https://example.com/a''"
  by (simp add: run_create_fails)





text \<open>
  Claim C8. On a path that starts with the separator, which is every path the HTTP server
  hands to a handler, \<open>redirectHandler\<close> looks up the rest of the path: it redirects with
  status 302 to the stored target when the code is in the map, and answers 404 when it is
  not.
\<close>

theorem redirect_resolves:
  "redirectHandler st (CHR ''/'' # code) =
     Inr (case fmlookup (urls st) code of
            Some dest \<Rightarrow> Redirect dest 302
          | None \<Rightarrow> Error ''404 page not found'' 404)"
  by (simp add: redirectHandler_Cons StatusFound_def http_NotFound_def StatusNotFound_def
      split: option.splits)

text \<open>\<open>Path[1:]\<close> drops the first byte whatever it is (\<open>redirectHandler_Cons\<close>), and
  panics on the empty path.\<close>

lemma redirectHandler_empty_path: "redirectHandler st [] = Inl SliceBoundsOutOfRange"
  by (simp add: redirectHandler_def)

subsection \<open>The empty target\<close>

text \<open>The command line does not call \<open>shorten\<close> on an empty URL: it prints the usage and
  leaves the store as it is.\<close>

lemma runCLI_empty_url: "runCLI js flt False [] st = Some (Usage, st)"
  by (simp add: runCLI_def)

text \<open>
  Claim C4 says an empty target is rejected before it reaches the store. \<open>shortenHandler\<close>
  has no such check: a POST with the body \<open>{"url":""}\<close> on an empty store makes \<open>shorten\<close>
  take the code \<open>aaaaaa\<close>, map it to the empty string, write the snapshot, and answer
  with the short URL.
\<close>

theorem shortenHandler_accepts_empty_url:
  \<open>shortenHandler go_json no_faults \<lparr>req_method = ''POST'', req_body = ''{"url":""}''\<rparr>
     \<lparr>urls = fmempty, disk = Map.empty, rng = sconst 0\<rparr>
   = Some (JSON (marshal go_json [] [] (fmupd ''short_url'' ''http://localhost:8080/aaaaaa'' fmempty)),
       \<lparr>urls = fmupd ''aaaaaa'' [] fmempty,
        disk = [dbFile \<mapsto> marshal go_json [] ''  '' (fmupd ''aaaaaa'' [] fmempty)],
        rng = sconst 0\<rparr>)\<close>
  using run_first [of go_json "[]" Map.empty] url_example
  by (simp add: shortenHandler_def baseURL_def)

end
